theory Spec2Isabelle
  imports Main
begin

section \<open>STRM module registration and code generation (src/utils/cliUtils.ts)\<close>

text \<open>
  A shallow embedding of the module pipeline of the STRM Stack CLI:
  \<^verbatim>\<open>buildSTRMModule\<close>, \<^verbatim>\<open>writeSTRMModulesFile\<close>, \<^verbatim>\<open>regenerateSTRMModuleRoutes\<close>,
  \<^verbatim>\<open>buildSTRMFrontendComponents\<close> and \<^verbatim>\<open>createSTRMModule\<close>. A string is the list of the
  bytes of its UTF-8 encoding, so that every name, ASCII or not, is a string of the model
  and concatenation, comparison and splitting at an ASCII character are those of the
  JavaScript string. The file system is an explicit state that every step takes and
  returns; a rejected promise of \<^verbatim>\<open>node:fs/promises\<close> is an \<open>Inl\<close> value; the readings of the
  system clock are parameters. Console output is not part of the model.
\<close>

subsection \<open>Strings\<close>

abbreviation NL :: string where "NL \<equiv> [CHR 0x0A]"
abbreviation TAB :: string where "TAB \<equiv> [CHR 0x09]"
abbreviation SQ :: string where "SQ \<equiv> [CHR 0x27]"
abbreviation DQ :: string where "DQ \<equiv> [CHR 0x22]"

text \<open>
  The case mappings of ASCII. The pipeline does not use them: it takes
  \<^verbatim>\<open>String.prototype.toLowerCase\<close> and \<^verbatim>\<open>toUpperCase\<close> from the runtime (see \<open>collaborators\<close>
  below). On a string of ASCII characters the runtime's mappings are these, which is how
  the examples instantiate them.
\<close>

definition isUpper :: "char \<Rightarrow> bool" where
  "isUpper c = (65 \<le> (of_char c :: nat) \<and> (of_char c :: nat) \<le> 90)"

definition isLower :: "char \<Rightarrow> bool" where
  "isLower c = (97 \<le> (of_char c :: nat) \<and> (of_char c :: nat) \<le> 122)"

definition asciiLowerChar :: "char \<Rightarrow> char" where
  "asciiLowerChar c = (if isUpper c then char_of ((of_char c :: nat) + 32) else c)"

definition asciiUpperChar :: "char \<Rightarrow> char" where
  "asciiUpperChar c = (if isLower c then char_of ((of_char c :: nat) - 32) else c)"

definition asciiLowerCase :: "string \<Rightarrow> string" where
  "asciiLowerCase s = map asciiLowerChar s"

definition asciiUpperCase :: "string \<Rightarrow> string" where
  "asciiUpperCase s = map asciiUpperChar s"

text \<open>\<^verbatim>\<open>s.split('_')\<close>: the pieces between the separators, empty pieces included.\<close>

fun split_on :: "char \<Rightarrow> string \<Rightarrow> string list" where
  "split_on sep [] = [[]]"
| "split_on sep (c # cs) =
     (if c = sep then [] # split_on sep cs
      else (case split_on sep cs of [] \<Rightarrow> [[c]] | w # ws \<Rightarrow> (c # w) # ws))"

text \<open>\<^verbatim>\<open>haystack.includes(needle)\<close>\<close>

fun startsWith :: "string \<Rightarrow> string \<Rightarrow> bool" where
  "startsWith s [] = True"
| "startsWith [] (n # ns) = False"
| "startsWith (c # cs) (n # ns) = (c = n \<and> startsWith cs ns)"

fun includesStr :: "string \<Rightarrow> string \<Rightarrow> bool" where
  "includesStr [] needle = (needle = [])"
| "includesStr (c # cs) needle = (startsWith (c # cs) needle \<or> includesStr cs needle)"

subsection \<open>Data model (src/@types/strm.d.ts)\<close>

record ScaffoldOutput =
  success :: bool
  message :: "string option"

datatype FrontendOpt = react | vue | lit

fun frontendName :: "FrontendOpt \<Rightarrow> string" where
  "frontendName react = ''react''"
| "frontendName vue = ''vue''"
| "frontendName lit = ''lit''"

text \<open>Of \<^verbatim>\<open>STRMConfigFile\<close> the pipeline reads the \<^verbatim>\<open>frontend\<close> field only.\<close>

record STRMConfigFile =
  frontend :: FrontendOpt

record STRMFERoute =
  path :: string
  componentName :: string
  componentPath :: string

record STRMController =
  controllerName :: string
  endpointBase :: string
  modelName :: string

record STRMModule =
  controller :: STRMController
  controllerOnly :: bool
  pages :: "STRMFERoute list"

text \<open>
  \<^verbatim>\<open>modules: Record<string, STRMModule>\<close> is a JavaScript object: its keys are distinct and
  \<^verbatim>\<open>Object.keys\<close> lists them in insertion order (the keys are module names, not array
  indices). It is an association list in that order. A value is \<open>None\<close> where the parsed
  JSON holds a falsy value such as \<^verbatim>\<open>null\<close> under the key, which is what the guards
  \<^verbatim>\<open>if (module)\<close> and \<^verbatim>\<open>if (!module)\<close> of the source test. The declared type has a
  descriptor under every key, and the pipeline only ever stores descriptors: a registry
  of that type has no \<open>None\<close>.

  \<^verbatim>\<open>lastUpdated\<close> is the instant, in milliseconds since the epoch, that the stored
  ISO-8601 string denotes: \<^verbatim>\<open>new Date().toISOString()\<close> renders the clock reading, and the
  rendering preserves the order of instants.
\<close>

type_synonym modules_map = "(string \<times> STRMModule option) list"

record STRMModulesFile =
  appId :: string
  lastUpdated :: int
  modules :: modules_map

text \<open>
  \<^verbatim>\<open>STRMModuleArgs\<close>: \<^verbatim>\<open>controllerOnly?: boolean\<close> and \<^verbatim>\<open>plural?: string\<close> are optional, \<open>None\<close>
  is \<^verbatim>\<open>undefined\<close>.
\<close>

record STRMModuleArgs =
  name :: string
  controllerOnlyArg :: "bool option"
  plural :: "string option"

text \<open>
  What \<^verbatim>\<open>cliUtils.ts\<close> takes from outside itself. From the JavaScript runtime:
  \<^verbatim>\<open>String.prototype.toLowerCase\<close> and \<^verbatim>\<open>toUpperCase\<close>, which follow the Unicode case tables
  (they are functions on whole strings: a mapping may change the length). From files
  that are not part of the sources at hand: the brand string of the locale data
  (\<^verbatim>\<open>localeData.misc.STORM_BRANDED\<close>), \<^verbatim>\<open>titleCase\<close> of \<^verbatim>\<open>generalUtils.js\<close>, and the two page
  generators of \<^verbatim>\<open>cliHelpers/fePageHelpers\<close>. The pipeline is parameterised by them, and
  every theorem holds for all of them.
\<close>

record collaborators =
  toLowerCase :: "string \<Rightarrow> string"
  toUpperCase :: "string \<Rightarrow> string"
  STORM_BRANDED :: string
  titleCase :: "string \<Rightarrow> string"
  generateIndexPage :: "FrontendOpt \<Rightarrow> string \<Rightarrow> string"
  generateDetailsPage :: "FrontendOpt \<Rightarrow> string \<Rightarrow> string \<Rightarrow> string \<Rightarrow> string"

text \<open>
  Modelled from the spec: \<^verbatim>\<open>buildScaffoldOutput\<close> of \<^verbatim>\<open>utils/generalUtils.js\<close>, which
  is not among the sources. Every function of \<^verbatim>\<open>cliUtils.ts\<close> starts from its result,
  sets \<^verbatim>\<open>success = true\<close> on the one path that completes and only a message on the
  others: the structured outcome (success flag and message) starts as a failure with
  no message.
\<close>

definition buildScaffoldOutput :: ScaffoldOutput where
  "buildScaffoldOutput = \<lparr>success = False, message = None\<rparr>"

subsection \<open>Module construction\<close>

text \<open>\<^verbatim>\<open>plural ? plural : name\<close>: an absent and an empty \<^verbatim>\<open>plural\<close> are both falsy.\<close>

definition pluralizedName :: "STRMModuleArgs \<Rightarrow> string" where
  "pluralizedName args =
     (case plural args of
        None \<Rightarrow> name args
      | Some p \<Rightarrow> if p = [] then name args else p)"

definition buildSTRMModule :: "collaborators \<Rightarrow> STRMModuleArgs \<Rightarrow> STRMModule" where
  "buildSTRMModule c args =
     (let pluralized = pluralizedName args;
          lowercaseName = toLowerCase c (name args);
          ctrl = \<lparr>controllerName = lowercaseName @ ''_controller'',
                  endpointBase = pluralized,
                  modelName = lowercaseName @ ''.py''\<rparr>;
          only = (controllerOnlyArg args = Some True);
          indexPage = \<lparr>path = ''/'' @ pluralized,
                       componentName = titleCase c (name args),
                       componentPath = titleCase c pluralized @ ''/Index''\<rparr>;
          detailsPage = \<lparr>path = ''/'' @ pluralized @ ''/:id'',
                         componentName = titleCase c (name args) @ ''Detail'',
                         componentPath = titleCase c pluralized @ ''/'' @ titleCase c (name args)\<rparr>
      in \<lparr>controller = ctrl,
          controllerOnly = only,
          pages = (if only then [] else [indexPage, detailsPage])\<rparr>)"

subsection \<open>The project directory\<close>

text \<open>
  All paths are relative to \<^verbatim>\<open>process.cwd()\<close>. The state holds what the pipeline reads and
  writes there: the parsed content of \<^verbatim>\<open>strm_modules/strm_modules.json\<close> (\<open>None\<close> when the
  file is missing, unreadable or not JSON, which is when \<^verbatim>\<open>getSTRMModules\<close> returns
  \<^verbatim>\<open>undefined\<close>), the parsed project configuration, the text files, the directories, and
  the set of paths at which a write is refused by the operating system.
\<close>

record project =
  modulesFile :: "STRMModulesFile option"
  configFile :: "STRMConfigFile option"
  files :: "string \<rightharpoonup> string"
  dirs :: "string set"
  unwritable :: "string set"

datatype io_error = EEXIST string | EIO string

fun errorMessage :: "io_error \<Rightarrow> string" where
  "errorMessage (EEXIST p) = ''EEXIST: file already exists, mkdir '' @ SQ @ p @ SQ"
| "errorMessage (EIO p) = ''EIO: i/o error, open '' @ SQ @ p @ SQ"

text \<open>\<^verbatim>\<open>writeFile\<close> replaces the content, \<^verbatim>\<open>appendFile\<close> extends it and creates the file if needed.\<close>

definition writeFile :: "string \<Rightarrow> string \<Rightarrow> project \<Rightarrow> io_error + project" where
  "writeFile p d fs =
     (if p \<in> unwritable fs then Inl (EIO p)
      else Inr (fs\<lparr>files := (files fs)(p \<mapsto> d)\<rparr>))"

definition appendFile :: "string \<Rightarrow> string \<Rightarrow> project \<Rightarrow> io_error + project" where
  "appendFile p d fs =
     (if p \<in> unwritable fs then Inl (EIO p)
      else Inr (fs\<lparr>files := (files fs)(p \<mapsto> (case files fs p of None \<Rightarrow> d | Some old \<Rightarrow> old @ d))\<rparr>))"

text \<open>\<^verbatim>\<open>mkdir(path)\<close> without \<^verbatim>\<open>recursive\<close>: rejected when the path exists already.\<close>

definition mkdir :: "string \<Rightarrow> project \<Rightarrow> io_error + project" where
  "mkdir p fs =
     (if p \<in> dirs fs \<or> files fs p \<noteq> None then Inl (EEXIST p)
      else if p \<in> unwritable fs then Inl (EIO p)
      else Inr (fs\<lparr>dirs := insert p (dirs fs)\<rparr>))"

text \<open>The readings of \<^verbatim>\<open>new Date()\<close> made during one run of the pipeline, one per call site.\<close>

record clock =
  persistInstant :: int
  modelDate :: string
  controllerDate :: string
  routesDate :: string

definition failed :: "string option \<Rightarrow> ScaffoldOutput" where
  "failed m = buildScaffoldOutput\<lparr>message := m\<rparr>"

definition succeeded :: ScaffoldOutput where
  "succeeded = buildScaffoldOutput\<lparr>success := True\<rparr>"

subsection \<open>Controller, auto-import and model files\<close>

definition controllerFilePath :: "string \<Rightarrow> string" where
  "controllerFilePath cn = ''strm_controllers/'' @ cn @ ''_controller.py''"

definition controllerData :: "collaborators \<Rightarrow> string \<Rightarrow> string \<Rightarrow> string" where
  "controllerData c date cn =
     ''# Generated by the '' @ STORM_BRANDED c @ '' '' @ date @ NL @
     ''# Core imports'' @ NL @
     ''from starlette.endpoints import HTTPEndpoint'' @ NL @
     ''from starlette.responses import JSONResponse'' @ NL @
     NL @
     NL @
     ''class '' @ titleCase c cn @ ''Controller(HTTPEndpoint):'' @ NL @
     TAB @ DQ @ DQ @ DQ @ NL @
     TAB @ ''Autogenerated: Represents a '' @ STORM_BRANDED c @ '' Controller'' @ NL @
     TAB @ DQ @ DQ @ DQ @ NL @
     TAB @ ''def get(self, request):'' @ NL @
     TAB @ TAB @ ''return JSONResponse({'' @ NL @
     TAB @ TAB @ TAB @ DQ @ ''success'' @ DQ @ '': True,'' @ NL @
     TAB @ TAB @ TAB @ DQ @ ''message'' @ DQ @ '': '' @ DQ @
       ''Controller generated by the CLI. Edit '' @ SQ @ ''strm_models/'' @ cn @
       ''.py as needed'' @ DQ @ NL @
     TAB @ TAB @ ''})'' @ NL @ NL"

definition writeSTRMControllerFile ::
  "collaborators \<Rightarrow> string \<Rightarrow> string \<Rightarrow> project \<Rightarrow> ScaffoldOutput \<times> project" where
  "writeSTRMControllerFile c date cn fs =
     (case writeFile (controllerFilePath cn) (controllerData c date cn) fs of
        Inl e \<Rightarrow> (failed (Some (errorMessage e)), fs)
      | Inr fs' \<Rightarrow> (succeeded, fs'))"

definition autoImportPath :: string where
  "autoImportPath = ''strm_controllers/__init__.py''"

definition autoImportData :: "collaborators \<Rightarrow> string \<Rightarrow> string" where
  "autoImportData c cn =
     ''from .'' @ cn @ ''_controller import '' @ titleCase c cn @ ''Controller'' @ NL"

definition updateSTRMModuleRouteAutoImports ::
  "collaborators \<Rightarrow> string \<Rightarrow> project \<Rightarrow> ScaffoldOutput \<times> project" where
  "updateSTRMModuleRouteAutoImports c cn fs =
     (case appendFile autoImportPath (autoImportData c cn) fs of
        Inl e \<Rightarrow> (failed (Some (errorMessage e)), fs)
      | Inr fs' \<Rightarrow> (succeeded, fs'))"

definition modelFilePath :: "string \<Rightarrow> string" where
  "modelFilePath mn = ''strm_models/'' @ mn @ ''.py''"

definition modelFileData :: "collaborators \<Rightarrow> string \<Rightarrow> string \<Rightarrow> string" where
  "modelFileData c date mn =
     ''# Generated by the '' @ STORM_BRANDED c @ '' '' @ date @ NL @
     ''# Core Imports'' @ NL @
     ''import datetime'' @ NL @
     ''import mongoengine as me'' @ NL @
     NL @
     NL @
     ''class '' @ titleCase c mn @ ''(me.Document):'' @ NL @
     TAB @ DQ @ DQ @ DQ @ NL @
     TAB @ ''Autogenerated:'' @ NL @
     TAB @ ''Represents a '' @ mn @ NL @
     TAB @ DQ @ DQ @ DQ @ NL @
     TAB @ ''label = me.StringField(required=True, max_length=200)'' @ NL @
     TAB @ ''updated_at = me.DateTimeField(default=datetime.datetime.utcnow)'' @ NL @ NL @
     ''    ''"

definition writeSTRMModelFile ::
  "collaborators \<Rightarrow> string \<Rightarrow> string \<Rightarrow> project \<Rightarrow> ScaffoldOutput \<times> project" where
  "writeSTRMModelFile c date mn fs =
     (case writeFile (modelFilePath mn) (modelFileData c date mn) fs of
        Inl e \<Rightarrow> (failed (Some (errorMessage e)), fs)
      | Inr fs' \<Rightarrow> (succeeded, fs'))"

subsection \<open>The module registry\<close>

definition modulesFilePath :: string where
  "modulesFilePath = ''strm_modules/strm_modules.json''"

definition getSTRMModules :: "project \<Rightarrow> STRMModulesFile option" where
  "getSTRMModules fs = modulesFile fs"

text \<open>
  \<^verbatim>\<open>strmModulesFile.lastUpdated = new Date().toISOString()\<close>, then the whole object is
  serialised and written. \<open>now\<close> is the clock reading.
\<close>

definition writeSTRMModulesFile ::
  "int \<Rightarrow> STRMModulesFile \<Rightarrow> project \<Rightarrow> ScaffoldOutput \<times> project" where
  "writeSTRMModulesFile now strmModulesFile fs =
     (let dataToWrite = strmModulesFile\<lparr>lastUpdated := now\<rparr>
      in if modulesFilePath \<in> unwritable fs
         then (failed (Some (errorMessage (EIO modulesFilePath))), fs)
         else (succeeded, fs\<lparr>modulesFile := Some dataToWrite\<rparr>))"

text \<open>
  \<^verbatim>\<open>obj[key] = value\<close> on a JavaScript object: an existing key keeps its place and gets the
  new value, a new key goes to the end.
\<close>

fun assign :: "string \<Rightarrow> 'v \<Rightarrow> (string \<times> 'v) list \<Rightarrow> (string \<times> 'v) list" where
  "assign k v [] = [(k, v)]"
| "assign k v ((k', v') # rest) =
     (if k' = k then (k, v) # rest else (k', v') # assign k v rest)"

text \<open>\<^verbatim>\<open>obj[key]\<close> as the guards see it: a descriptor, or something falsy.\<close>

definition lookupModule :: "modules_map \<Rightarrow> string \<Rightarrow> STRMModule option" where
  "lookupModule ms k = (case map_of ms k of Some (Some m) \<Rightarrow> Some m | _ \<Rightarrow> None)"

subsection \<open>The route table\<close>

definition routesFilePath :: string where
  "routesFilePath = ''strm_routes/__init__.py''"

text \<open>
  \<^verbatim>\<open>`${String(word).charAt(0).toUpperCase()}${String(word).slice(1)}`\<close>. \<^verbatim>\<open>charAt(0)\<close> is the
  first UTF-16 code unit of the word and \<^verbatim>\<open>slice(1)\<close> the rest. In UTF-8 the lead byte
  tells how many bytes the first code point has: up to three for a code point of the
  Basic Multilingual Plane, which is one code unit, and four for a code point beyond it,
  which is a surrogate pair. Of such a pair \<^verbatim>\<open>charAt(0)\<close> is the first half alone, which
  \<^verbatim>\<open>toUpperCase\<close> leaves as it is, so that the word is unchanged.
\<close>

definition firstUnitBytes :: "char \<Rightarrow> nat" where
  "firstUnitBytes b =
     (if (of_char b :: nat) < 0xC0 then 1
      else if (of_char b :: nat) < 0xE0 then 2
      else if (of_char b :: nat) < 0xF0 then 3
      else 4)"

fun capitalise :: "collaborators \<Rightarrow> string \<Rightarrow> string" where
  "capitalise c [] = []"
| "capitalise c (b # bs) =
     (if firstUnitBytes b = 4 then b # bs
      else toUpperCase c (take (firstUnitBytes b) (b # bs)) @ drop (firstUnitBytes b) (b # bs))"

text \<open>\<^verbatim>\<open>controllerName.split('_').map(...).join('')\<close> of \<^verbatim>\<open>regenerateSTRMModuleRoutes\<close>.\<close>

definition correctedControllerName :: "collaborators \<Rightarrow> string \<Rightarrow> string" where
  "correctedControllerName c cn = concat (map (capitalise c) (split_on (CHR ''_'') cn))"

text \<open>
  The body of \<^verbatim>\<open>Object.keys(modules).forEach((moduleKey, index) => ...)\<close>: \<open>n\<close> is the
  number of keys, \<open>index\<close> the position of the key at hand and \<open>acc\<close> the string built so
  far (\<^verbatim>\<open>controllerRoutesString\<close>).
\<close>

fun routesLoop :: "collaborators \<Rightarrow> nat \<Rightarrow> nat \<Rightarrow> modules_map \<Rightarrow> string \<Rightarrow> string" where
  "routesLoop c n index [] acc = acc"
| "routesLoop c n index ((moduleKey, entry) # rest) acc =
     routesLoop c n (Suc index) rest
       (case entry of
          None \<Rightarrow> acc
        | Some m \<Rightarrow>
            (let ctrl = controller m;
                 corrected = correctedControllerName c (controllerName ctrl);
                 shouldAddNewLine = (int index \<noteq> int n - 1)
             in acc @
                ''        Route('' @ SQ @ ''/'' @ endpointBase ctrl @ SQ @ '', '' @ corrected @ ''),'' @ NL @
                ''        Route('' @ SQ @ ''/'' @ endpointBase ctrl @ ''/{'' @ moduleKey @ ''}'' @ SQ @ '', '' @
                  corrected @ ''),'' @ (if shouldAddNewLine then NL else [])))"

definition controllerRoutesString :: "collaborators \<Rightarrow> modules_map \<Rightarrow> string" where
  "controllerRoutesString c ms = routesLoop c (length ms) 0 ms []"

definition routesString :: "collaborators \<Rightarrow> string \<Rightarrow> modules_map \<Rightarrow> string" where
  "routesString c date ms =
     ''# Generated by the '' @ STORM_BRANDED c @ '' '' @ date @ NL @
     ''# core imports'' @ NL @
     ''from starlette.routing import Mount, Route'' @ NL @
     ''# '' @ STORM_BRANDED c @ '' imports'' @ NL @
     ''from strm_controllers import *'' @ NL @
     NL @
     NL @
     ''# generated routes'' @ NL @
     ''routes = ['' @ NL @
     ''    Mount('' @ SQ @ ''/api'' @ SQ @ '', routes=['' @ NL @
     controllerRoutesString c ms @ NL @
     ''    ])'' @ NL @
     '']'' @ NL"

definition regenerateSTRMModuleRoutes ::
  "collaborators \<Rightarrow> string \<Rightarrow> project \<Rightarrow> ScaffoldOutput \<times> project" where
  "regenerateSTRMModuleRoutes c date fs =
     (case getSTRMModules fs of
        None \<Rightarrow> (failed (Some ''Failed to read modules file''), fs)
      | Some modulesJSON \<Rightarrow>
          (case writeFile routesFilePath (routesString c date (modules modulesJSON)) fs of
             Inl e \<Rightarrow> (failed (Some (errorMessage e)), fs)
           | Inr fs' \<Rightarrow> (succeeded, fs')))"

text \<open>
  The route bindings as the specification words them, for comparison with the loop:
  the modules that are not skipped, in the order of the registry, two bindings each
  (the collection under \<^verbatim>\<open>/E\<close>, then the single resource under \<^verbatim>\<open>/E/{K}\<close>, both bound to
  the title-cased controller name), and a line break behind every module but the last
  one emitted.
\<close>

definition routeBinding :: "string \<Rightarrow> string \<Rightarrow> string" where
  "routeBinding p ctrl = ''        Route('' @ SQ @ p @ SQ @ '', '' @ ctrl @ ''),''"

definition moduleBindings :: "collaborators \<Rightarrow> string \<Rightarrow> STRMModule \<Rightarrow> string" where
  "moduleBindings c k m =
     routeBinding (''/'' @ endpointBase (controller m))
       (correctedControllerName c (controllerName (controller m))) @ NL @
     routeBinding (''/'' @ endpointBase (controller m) @ ''/{'' @ k @ ''}'')
       (correctedControllerName c (controllerName (controller m)))"




text \<open>
  What the loop emits for the entry at position \<open>i\<close> of \<open>n\<close>: nothing for a skipped
  entry, else the two bindings, with a line break unless \<open>i\<close> is the last position.
\<close>

definition routeChunk ::
  "collaborators \<Rightarrow> nat \<Rightarrow> nat \<times> string \<times> STRMModule option \<Rightarrow> string" where
  "routeChunk c n e =
     (case e of
        (i, k, None) \<Rightarrow> []
      | (i, k, Some m) \<Rightarrow> moduleBindings c k m @ (if Suc i = n then [] else NL))"

subsection \<open>Frontend page components\<close>

text \<open>
  \<^verbatim>\<open>getProjectConfig\<close> (\<^verbatim>\<open>fileUtils.js\<close>) yields the parsed \<^verbatim>\<open>strm_config/strm_config.json\<close>
  or \<^verbatim>\<open>undefined\<close>.
\<close>

definition getProjectConfig :: "project \<Rightarrow> STRMConfigFile option" where
  "getProjectConfig fs = configFile fs"

definition feBasePath :: "collaborators \<Rightarrow> FrontendOpt \<Rightarrow> string \<Rightarrow> string" where
  "feBasePath c fe pluralizedModuleName =
     ''strm_fe_'' @ frontendName fe @ ''/src/pages/'' @ titleCase c pluralizedModuleName"

text \<open>
  The \<^verbatim>\<open>for (const page of pages)\<close> loop. A rejected write ends the loop; the pages written
  before it stay.
\<close>

fun writePages ::
  "collaborators \<Rightarrow> FrontendOpt \<Rightarrow> string \<Rightarrow> STRMModule \<Rightarrow> STRMFERoute list \<Rightarrow> project
     \<Rightarrow> io_error option \<times> project" where
  "writePages c fe base m [] fs = (None, fs)"
| "writePages c fe base m (page # rest) fs =
     (let isIndexPage = includesStr (componentPath page) ''Index'';
          fileName = (if isIndexPage then ''Index.tsx'' else componentName page @ ''.tsx'');
          pageData = (if isIndexPage then generateIndexPage c fe (componentName page)
                      else generateDetailsPage c fe (componentName page) (componentPath page)
                             (controllerName (controller m)))
      in case writeFile (base @ ''/'' @ fileName) pageData fs of
           Inl e \<Rightarrow> (Some e, fs)
         | Inr fs' \<Rightarrow> writePages c fe base m rest fs')"

definition buildSTRMFrontendComponents ::
  "collaborators \<Rightarrow> string \<Rightarrow> string \<Rightarrow> project \<Rightarrow> ScaffoldOutput \<times> project" where
  "buildSTRMFrontendComponents c moduleKey pluralizedModuleName fs =
     (case getProjectConfig fs of
        None \<Rightarrow> (failed (Some ''Failed to load project config''), fs)
      | Some strmConfig \<Rightarrow>
     (case getSTRMModules fs of
        None \<Rightarrow> (failed (Some ''Failed to load strm modules''), fs)
      | Some strmModules \<Rightarrow>
     (let base = feBasePath c (frontend strmConfig) pluralizedModuleName
      in case mkdir base fs of
           Inl e \<Rightarrow> (failed (Some (errorMessage e)), fs)
         | Inr fs1 \<Rightarrow>
     (case lookupModule (modules strmModules) moduleKey of
        None \<Rightarrow> (failed (Some ''Invalid STRM Module''), fs1)
      | Some m \<Rightarrow>
     (case writePages c (frontend strmConfig) base m (pages m) fs1 of
        (Some e, fs2) \<Rightarrow> (failed (Some (errorMessage e)), fs2)
      | (None, fs2) \<Rightarrow> (succeeded, fs2))))))"

subsection \<open>The orchestrator\<close>

text \<open>
  \<^verbatim>\<open>createSTRMModule\<close>: read the registry, store the new descriptor under the module name
  and persist, write the model and the controller, rebuild the routes, append the
  auto-import, build the frontend components. Each step returns its outcome and the
  first failure ends the run with the project as the steps before left it.
\<close>

definition updatedModulesFile ::
  "collaborators \<Rightarrow> STRMModuleArgs \<Rightarrow> STRMModulesFile \<Rightarrow> STRMModulesFile" where
  "updatedModulesFile c moduleArgs strmModulesFileData =
     strmModulesFileData
       \<lparr>modules := assign (name moduleArgs) (Some (buildSTRMModule c moduleArgs))
                     (modules strmModulesFileData)\<rparr>"

definition createSTRMModule ::
  "collaborators \<Rightarrow> clock \<Rightarrow> STRMModuleArgs \<Rightarrow> project \<Rightarrow> ScaffoldOutput \<times> project" where
  "createSTRMModule c clk moduleArgs fs =
     (case getSTRMModules fs of
        None \<Rightarrow> (failed (Some ''Failed to read STRMModules file''), fs)
      | Some strmModulesFileData \<Rightarrow>
     (case writeSTRMModulesFile (persistInstant clk)
             (updatedModulesFile c moduleArgs strmModulesFileData) fs of
        (writeModulesResult, fs1) \<Rightarrow>
     if \<not> success writeModulesResult then (failed (Some ''Failed to write Modules''), fs1) else
     (case writeSTRMModelFile c (modelDate clk) (name moduleArgs) fs1 of
        (modelResult, fs2) \<Rightarrow>
     if \<not> success modelResult then (failed (message modelResult), fs2) else
     (case writeSTRMControllerFile c (controllerDate clk) (name moduleArgs) fs2 of
        (controllerResult, fs3) \<Rightarrow>
     if \<not> success controllerResult then (failed (message controllerResult), fs3) else
     (case regenerateSTRMModuleRoutes c (routesDate clk) fs3 of
        (moduleRoutesResult, fs4) \<Rightarrow>
     if \<not> success moduleRoutesResult then (failed (message moduleRoutesResult), fs4) else
     (case updateSTRMModuleRouteAutoImports c (name moduleArgs) fs4 of
        (updateAutoImportsResult, fs5) \<Rightarrow>
     if \<not> success updateAutoImportsResult then (failed (message updateAutoImportsResult), fs5) else
     (case buildSTRMFrontendComponents c (name moduleArgs) (pluralizedName moduleArgs) fs5 of
        (buildFEComponentsResult, fs6) \<Rightarrow>
     if \<not> success buildFEComponentsResult then (failed (message buildFEComponentsResult), fs6)
     else (succeeded, fs6))))))))"

subsection \<open>Example inputs\<close>

text \<open>
  Modelled from the spec: \<^verbatim>\<open>titleCase\<close> of \<^verbatim>\<open>utils/generalUtils.js\<close>, which is not among
  the sources: the first letter of each underscore-delimited segment is capitalised and
  the rest of the segment is kept. The segments are joined as the route rebuilder joins
  them. The theorems below hold for every \<open>titleCase\<close>; this one serves the examples.
\<close>

fun asciiCapitalise :: "string \<Rightarrow> string" where
  "asciiCapitalise [] = []"
| "asciiCapitalise (b # bs) = asciiUpperChar b # bs"

definition exampleTitleCase :: "string \<Rightarrow> string" where
  "exampleTitleCase s = concat (map asciiCapitalise (split_on (CHR ''_'') s))"

definition exampleCollaborators :: collaborators where
  "exampleCollaborators =
     \<lparr>toLowerCase = asciiLowerCase,
      toUpperCase = asciiUpperCase,
      STORM_BRANDED = ''STORM Stack'',
      titleCase = exampleTitleCase,
      generateIndexPage = (\<lambda>fe n. ''// index page '' @ n),
      generateDetailsPage = (\<lambda>fe n p cn. ''// details page '' @ n @ '' of '' @ cn)\<rparr>"

definition bookArgs :: STRMModuleArgs where
  "bookArgs = \<lparr>name = ''book'', controllerOnlyArg = Some False, plural = None\<rparr>"

definition categoryArgs :: STRMModuleArgs where
  "categoryArgs = \<lparr>name = ''category'', controllerOnlyArg = Some True, plural = Some ''categories''\<rparr>"

definition exampleRegistry :: STRMModulesFile where
  "exampleRegistry = \<lparr>appId = ''app-1'', lastUpdated = 5000, modules = []\<rparr>"

definition exampleProject :: project where
  "exampleProject =
     \<lparr>modulesFile = Some exampleRegistry,
      configFile = Some \<lparr>frontend = react\<rparr>,
      files = Map.empty,
      dirs = {''strm_fe_react/src/pages''},
      unwritable = {}\<rparr>"

definition exampleClock :: clock where
  "exampleClock =
     \<lparr>persistInstant = 6000, modelDate = ''11/3/2026'', controllerDate = ''11/3/2026'',
      routesDate = ''11/3/2026''\<rparr>"

text \<open>
  A registry that holds the modules \<^verbatim>\<open>book\<close> and \<^verbatim>\<open>tag\<close> already, and the arguments of a
  second creation of \<^verbatim>\<open>tag\<close>, now with a plural.
\<close>

definition oldTagArgs :: STRMModuleArgs where
  "oldTagArgs = \<lparr>name = ''tag'', controllerOnlyArg = Some True, plural = None\<rparr>"

definition tagArgs :: STRMModuleArgs where
  "tagArgs = \<lparr>name = ''tag'', controllerOnlyArg = Some True, plural = Some ''tags''\<rparr>"

definition tagRegistry :: STRMModulesFile where
  "tagRegistry =
     \<lparr>appId = ''app-1'', lastUpdated = 5000,
      modules = [(''tag'', Some (buildSTRMModule exampleCollaborators oldTagArgs)),
                 (''book'', Some (buildSTRMModule exampleCollaborators bookArgs))]\<rparr>"

definition tagProject :: project where
  "tagProject = exampleProject\<lparr>modulesFile := Some tagRegistry\<rparr>"



text \<open>The example project after one run of the pipeline for \<^verbatim>\<open>book\<close>.\<close>

definition afterBook :: project where
  "afterBook = snd (createSTRMModule exampleCollaborators exampleClock bookArgs exampleProject)"

section \<open>Properties\<close>

subsection \<open>Strings\<close>



lemma asciiLowerCase_examples:
  "asciiLowerCase ''book'' = ''book''" "asciiLowerCase ''Book'' = ''book''"
  "asciiLowerCase ''tag'' = ''tag''"
  by code_simp+

lemma exampleTitleCase_book: "exampleTitleCase ''book'' = ''Book''"
  by code_simp

lemma correctedControllerName_book:
  "correctedControllerName exampleCollaborators ''book_controller'' = ''BookController''"
  by code_simp

lemma correctedControllerName_tag:
  "correctedControllerName exampleCollaborators ''tag_controller'' = ''TagController''"
  by code_simp

subsection \<open>The example inputs\<close>

lemma exampleCollaborators_simps:
  "toLowerCase exampleCollaborators = asciiLowerCase"
  "toUpperCase exampleCollaborators = asciiUpperCase"
  "STORM_BRANDED exampleCollaborators = ''STORM Stack''"
  "titleCase exampleCollaborators = exampleTitleCase"
  "generateIndexPage exampleCollaborators fe n = ''// index page '' @ n"
  "generateDetailsPage exampleCollaborators fe n p cn = ''// details page '' @ n @ '' of '' @ cn"
  by (simp_all add: exampleCollaborators_def)

lemma exampleProject_simps:
  "modulesFile exampleProject = Some exampleRegistry"
  "configFile exampleProject = Some \<lparr>frontend = react\<rparr>"
  "files exampleProject = Map.empty"
  "dirs exampleProject = {''strm_fe_react/src/pages''}"
  "unwritable exampleProject = {}"
  by (simp_all add: exampleProject_def)

lemma exampleClock_simps:
  "persistInstant exampleClock = 6000" "modelDate exampleClock = ''11/3/2026''"
  "controllerDate exampleClock = ''11/3/2026''" "routesDate exampleClock = ''11/3/2026''"
  by (simp_all add: exampleClock_def)

lemma bookArgs_simps:
  "name bookArgs = ''book''" "pluralizedName bookArgs = ''book''"
  by (simp_all add: bookArgs_def pluralizedName_def)

lemma tagRegistry_simps:
  "appId tagRegistry = ''app-1''" "lastUpdated tagRegistry = 5000"
  "modules tagRegistry = [(''tag'', Some (buildSTRMModule exampleCollaborators oldTagArgs)),
                          (''book'', Some (buildSTRMModule exampleCollaborators bookArgs))]"
  by (simp_all add: tagRegistry_def)

lemma book_descriptor:
  "buildSTRMModule exampleCollaborators bookArgs =
     \<lparr>controller = \<lparr>controllerName = ''book_controller'', endpointBase = ''book'',
                     modelName = ''book.py''\<rparr>,
      controllerOnly = False,
      pages = [\<lparr>path = ''/book'', componentName = ''Book'', componentPath = ''Book/Index''\<rparr>,
               \<lparr>path = ''/book/:id'', componentName = ''BookDetail'',
                componentPath = ''Book/Book''\<rparr>]\<rparr>"
  by (simp add: buildSTRMModule_def bookArgs_def pluralizedName_def exampleCollaborators_simps
      exampleTitleCase_book asciiLowerCase_examples Let_def)

lemma book_registry:
  "modules (updatedModulesFile exampleCollaborators bookArgs exampleRegistry) =
     [(''book'', Some (buildSTRMModule exampleCollaborators bookArgs))]"
  by (simp add: updatedModulesFile_def exampleRegistry_def bookArgs_def)

subsection \<open>Module construction\<close>

text \<open>
  C3. For every descriptor that \<^verbatim>\<open>buildSTRMModule\<close> constructs, \<open>controllerOnly\<close> is true
  exactly when \<open>pages\<close> is empty (which is when the argument \<open>controllerOnly\<close> is true), and
  when it is false \<open>pages\<close> has exactly two entries: the index page (path
  \<^verbatim>\<open>/<plural>\<close>, component path \<^verbatim>\<open><Plural>/Index\<close>) followed by the detail page (path
  \<^verbatim>\<open>/<plural>/:id\<close>).
\<close>

theorem buildSTRMModule_page_count:
  "(controllerOnly (buildSTRMModule c args) \<longleftrightarrow> length (pages (buildSTRMModule c args)) = 0) \<and>
   (controllerOnly (buildSTRMModule c args) \<longleftrightarrow> controllerOnlyArg args = Some True) \<and>
   (\<not> controllerOnly (buildSTRMModule c args) \<longrightarrow>
      length (pages (buildSTRMModule c args)) = 2 \<and>
      pages (buildSTRMModule c args) =
        [\<lparr>path = ''/'' @ pluralizedName args,
          componentName = titleCase c (name args),
          componentPath = titleCase c (pluralizedName args) @ ''/Index''\<rparr>,
         \<lparr>path = ''/'' @ pluralizedName args @ ''/:id'',
          componentName = titleCase c (name args) @ ''Detail'',
          componentPath = titleCase c (pluralizedName args) @ ''/'' @ titleCase c (name args)\<rparr>])"
  by (simp add: buildSTRMModule_def Let_def)

theorem buildSTRMModule_page_count_witness:
  "\<not> controllerOnly (buildSTRMModule exampleCollaborators bookArgs) \<and>
   length (pages (buildSTRMModule exampleCollaborators bookArgs)) = 2 \<and>
   pages (buildSTRMModule exampleCollaborators bookArgs) =
     [\<lparr>path = ''/book'', componentName = ''Book'', componentPath = ''Book/Index''\<rparr>,
      \<lparr>path = ''/book/:id'', componentName = ''BookDetail'', componentPath = ''Book/Book''\<rparr>]"
proof -
  have flag: "controllerOnlyArg bookArgs \<noteq> Some True"
    by (simp add: bookArgs_def)
  have names: "pluralizedName bookArgs = ''book''" "name bookArgs = ''book''"
    "titleCase exampleCollaborators ''book'' = ''Book''"
    by (simp_all add: bookArgs_def pluralizedName_def exampleCollaborators_def exampleTitleCase_book)
  from flag buildSTRMModule_page_count [of exampleCollaborators bookArgs]
  have "\<not> controllerOnly (buildSTRMModule exampleCollaborators bookArgs) \<and>
        length (pages (buildSTRMModule exampleCollaborators bookArgs)) = 2 \<and>
        pages (buildSTRMModule exampleCollaborators bookArgs) =
          [\<lparr>path = ''/'' @ pluralizedName bookArgs,
            componentName = titleCase exampleCollaborators (name bookArgs),
            componentPath = titleCase exampleCollaborators (pluralizedName bookArgs) @ ''/Index''\<rparr>,
           \<lparr>path = ''/'' @ pluralizedName bookArgs @ ''/:id'',
            componentName = titleCase exampleCollaborators (name bookArgs) @ ''Detail'',
            componentPath = titleCase exampleCollaborators (pluralizedName bookArgs) @ ''/'' @
              titleCase exampleCollaborators (name bookArgs)\<rparr>]"
    by blast
  then show ?thesis
    by (simp only: names) simp
qed

subsection \<open>Pluralisation\<close>

text \<open>
  C8, as amended. The pluralised name is the \<^verbatim>\<open>plural\<close> argument when a non-empty one is
  given, and the module name itself when \<^verbatim>\<open>plural\<close> is absent or empty; nothing else is
  ever derived from the name. It is the endpoint base of the descriptor and the stem of
  both frontend route paths.
\<close>

theorem pluralizedName_override:
  "(\<forall>p. plural args = Some p \<and> p \<noteq> [] \<longrightarrow> pluralizedName args = p) \<and>
   (plural args = None \<or> plural args = Some [] \<longrightarrow> pluralizedName args = name args) \<and>
   endpointBase (controller (buildSTRMModule c args)) = pluralizedName args \<and>
   (\<not> controllerOnly (buildSTRMModule c args) \<longrightarrow>
      map path (pages (buildSTRMModule c args)) =
        [''/'' @ pluralizedName args, ''/'' @ pluralizedName args @ ''/:id''])"
  by (auto simp: pluralizedName_def buildSTRMModule_def Let_def)

text \<open>
  Module \<^verbatim>\<open>category\<close> with plural \<^verbatim>\<open>categories\<close> has the endpoint base \<^verbatim>\<open>categories\<close>;
  module \<^verbatim>\<open>book\<close> without a plural keeps \<^verbatim>\<open>book\<close>.
\<close>

theorem pluralizedName_override_witness:
  "plural categoryArgs = Some ''categories'' \<and>
   endpointBase (controller (buildSTRMModule exampleCollaborators categoryArgs)) = ''categories'' \<and>
   plural bookArgs = None \<and>
   endpointBase (controller (buildSTRMModule exampleCollaborators bookArgs)) = ''book'' \<and>
   map path (pages (buildSTRMModule exampleCollaborators bookArgs)) = [''/book'', ''/book/:id'']"
proof -
  have c: "plural categoryArgs = Some ''categories''" "''categories'' \<noteq> []"
    by (simp_all add: categoryArgs_def)
  have b: "plural bookArgs = None" "name bookArgs = ''book''"
    "\<not> controllerOnly (buildSTRMModule exampleCollaborators bookArgs)"
    by (simp_all add: bookArgs_def buildSTRMModule_def Let_def)
  from c pluralizedName_override [of categoryArgs exampleCollaborators]
  have c': "endpointBase (controller (buildSTRMModule exampleCollaborators categoryArgs)) = ''categories''"
    by metis
  from b pluralizedName_override [of bookArgs exampleCollaborators]
  have b': "pluralizedName bookArgs = ''book''"
    "endpointBase (controller (buildSTRMModule exampleCollaborators bookArgs)) = pluralizedName bookArgs"
    "map path (pages (buildSTRMModule exampleCollaborators bookArgs)) =
        [''/'' @ pluralizedName bookArgs, ''/'' @ pluralizedName bookArgs @ ''/:id'']"
    by metis+
  show ?thesis using c c' b b' by simp
qed

text \<open>
  C8 as stated fails for an override that is given but empty: \<^verbatim>\<open>plural ? plural : name\<close>
  treats the empty string as absent, so the endpoint base is the module name and not
  the override.
\<close>

theorem empty_plural_override_counterexample:
  "plural (categoryArgs\<lparr>plural := Some ''''\<rparr>) = Some '''' \<and>
   endpointBase (controller (buildSTRMModule exampleCollaborators (categoryArgs\<lparr>plural := Some ''''\<rparr>))) =
     ''category'' \<and>
   endpointBase (controller (buildSTRMModule exampleCollaborators (categoryArgs\<lparr>plural := Some ''''\<rparr>))) \<noteq> ''''"
  by (simp add: categoryArgs_def buildSTRMModule_def pluralizedName_def Let_def)

subsection \<open>The route bindings\<close>

lemma routeChunk_None: "routeChunk c n (i, k, None) = []"
  by (simp add: routeChunk_def)

lemma routeChunk_Some:
  "routeChunk c n (i, k, Some m) = moduleBindings c k m @ (if Suc i = n then [] else NL)"
  by (simp add: routeChunk_def)

lemma routesLoop_chunks:
  "routesLoop c n i ms acc = acc @ concat (map (routeChunk c n) (enumerate i ms))"
proof (induction ms arbitrary: i acc)
  case Nil
  show ?case by simp
next
  case (Cons e ms)
  obtain k v where e: "e = (k, v)" by (cases e)
  have newline: "(int i \<noteq> int n - 1) = (Suc i \<noteq> n)" by arith
  show ?case
  proof (cases v)
    case None
    then show ?thesis using Cons.IH e by (simp add: routeChunk_None)
  next
    case (Some m)
    then show ?thesis using Cons.IH e newline
      by (simp add: routeChunk_Some moduleBindings_def routeBinding_def Let_def)
  qed
qed




lemma book_bindings:
  "moduleBindings exampleCollaborators ''book'' (buildSTRMModule exampleCollaborators bookArgs) =
     ''        Route('' @ SQ @ ''/book'' @ SQ @ '', BookController),'' @ NL @
     ''        Route('' @ SQ @ ''/book/{book}'' @ SQ @ '', BookController),''"
  by (simp add: book_descriptor moduleBindings_def routeBinding_def correctedControllerName_book)

subsection \<open>The steps of the pipeline\<close>

lemma out_simps:
  "success (failed m) = False" "message (failed m) = m" "success succeeded = True"
  by (simp_all add: failed_def succeeded_def buildScaffoldOutput_def)

lemma writeSTRMModulesFile_ok:
  "modulesFilePath \<notin> unwritable fs \<Longrightarrow>
   writeSTRMModulesFile t R fs = (succeeded, fs\<lparr>modulesFile := Some (R\<lparr>lastUpdated := t\<rparr>)\<rparr>)"
  by (simp add: writeSTRMModulesFile_def)

lemma writeSTRMModulesFile_fail:
  "modulesFilePath \<in> unwritable fs \<Longrightarrow>
   writeSTRMModulesFile t R fs = (failed (Some (errorMessage (EIO modulesFilePath))), fs)"
  by (simp add: writeSTRMModulesFile_def)

lemma writeSTRMModulesFile_success_iff:
  "success (fst (writeSTRMModulesFile t R fs)) \<longleftrightarrow> modulesFilePath \<notin> unwritable fs"
  by (simp add: writeSTRMModulesFile_def out_simps)

lemma writeSTRMModelFile_ok:
  "modelFilePath n \<notin> unwritable fs \<Longrightarrow>
   writeSTRMModelFile c d n fs =
     (succeeded, fs\<lparr>files := (files fs)(modelFilePath n \<mapsto> modelFileData c d n)\<rparr>)"
  by (simp add: writeSTRMModelFile_def writeFile_def)

lemma writeSTRMControllerFile_ok:
  "controllerFilePath n \<notin> unwritable fs \<Longrightarrow>
   writeSTRMControllerFile c d n fs =
     (succeeded, fs\<lparr>files := (files fs)(controllerFilePath n \<mapsto> controllerData c d n)\<rparr>)"
  by (simp add: writeSTRMControllerFile_def writeFile_def)

lemma regenerateSTRMModuleRoutes_ok:
  "modulesFile fs = Some R \<Longrightarrow> routesFilePath \<notin> unwritable fs \<Longrightarrow>
   regenerateSTRMModuleRoutes c d fs =
     (succeeded, fs\<lparr>files := (files fs)(routesFilePath \<mapsto> routesString c d (modules R))\<rparr>)"
  by (simp add: regenerateSTRMModuleRoutes_def getSTRMModules_def writeFile_def)

lemma regenerateSTRMModuleRoutes_fail:
  "modulesFile fs = Some R \<Longrightarrow> routesFilePath \<in> unwritable fs \<Longrightarrow>
   regenerateSTRMModuleRoutes c d fs = (failed (Some (errorMessage (EIO routesFilePath))), fs)"
  by (simp add: regenerateSTRMModuleRoutes_def getSTRMModules_def writeFile_def)

lemma updateSTRMModuleRouteAutoImports_ok:
  "autoImportPath \<notin> unwritable fs \<Longrightarrow>
   updateSTRMModuleRouteAutoImports c n fs =
     (succeeded,
      fs\<lparr>files := (files fs)(autoImportPath \<mapsto>
             (case files fs autoImportPath of None \<Rightarrow> autoImportData c n
              | Some old \<Rightarrow> old @ autoImportData c n))\<rparr>)"
  by (simp add: updateSTRMModuleRouteAutoImports_def appendFile_def)

lemma buildSTRMFrontendComponents_exists:
  "configFile fs = Some cfg \<Longrightarrow> modulesFile fs = Some R \<Longrightarrow>
   feBasePath c (frontend cfg) pl \<in> dirs fs \<Longrightarrow>
   buildSTRMFrontendComponents c k pl fs =
     (failed (Some (errorMessage (EEXIST (feBasePath c (frontend cfg) pl)))), fs)"
  by (simp add: buildSTRMFrontendComponents_def getProjectConfig_def getSTRMModules_def mkdir_def)

lemma autoImportPath_distinct:
  "autoImportPath \<noteq> routesFilePath" "autoImportPath \<noteq> modelFilePath n"
  "autoImportPath \<noteq> controllerFilePath n"
proof -
  show "autoImportPath \<noteq> routesFilePath"
    by (simp add: autoImportPath_def routesFilePath_def)
  show "autoImportPath \<noteq> modelFilePath n"
    by (simp add: autoImportPath_def modelFilePath_def)
  show "autoImportPath \<noteq> controllerFilePath n"
  proof
    assume "autoImportPath = controllerFilePath n"
    then have "length autoImportPath = length (controllerFilePath n)" by simp
    then show False by (simp add: autoImportPath_def controllerFilePath_def)
  qed
qed

lemma routesFilePath_distinct:
  "routesFilePath \<noteq> modelFilePath n" "routesFilePath \<noteq> controllerFilePath n"
  by (simp_all add: routesFilePath_def modelFilePath_def controllerFilePath_def)

lemma example_paths:
  "modulesFilePath \<noteq> routesFilePath"
  "modelFilePath n \<noteq> routesFilePath"
  "controllerFilePath n \<noteq> routesFilePath"
  by (simp_all add: modulesFilePath_def routesFilePath_def modelFilePath_def controllerFilePath_def)

lemma autoImportPath_not_page:
  "autoImportPath \<noteq> ''strm_fe_react/src/pages/Book/Index.tsx''"
  "autoImportPath \<noteq> ''strm_fe_react/src/pages/Book/BookDetail.tsx''"
  by (simp_all add: autoImportPath_def)

lemma book_frontend:
  assumes "map_option modules (modulesFile fs) =
             Some [(''book'', Some (buildSTRMModule exampleCollaborators bookArgs))]"
    and "configFile fs = Some \<lparr>frontend = react\<rparr>"
    and "unwritable fs = {}"
    and "''strm_fe_react/src/pages/Book'' \<notin> dirs fs"
    and "files fs ''strm_fe_react/src/pages/Book'' = None"
  shows "buildSTRMFrontendComponents exampleCollaborators ''book'' ''book'' fs =
           (succeeded,
            fs\<lparr>files := (files fs)
                  (''strm_fe_react/src/pages/Book/Index.tsx'' \<mapsto> ''// index page Book'',
                   ''strm_fe_react/src/pages/Book/BookDetail.tsx'' \<mapsto>
                     ''// details page BookDetail of book_controller''),
               dirs := insert ''strm_fe_react/src/pages/Book'' (dirs fs)\<rparr>)"
  using assms
  by (auto simp: buildSTRMFrontendComponents_def getProjectConfig_def getSTRMModules_def
      feBasePath_def exampleCollaborators_simps exampleTitleCase_book mkdir_def
      lookupModule_def book_descriptor writeFile_def Let_def)

lemma first_run:
  "createSTRMModule exampleCollaborators exampleClock bookArgs exampleProject =
     (succeeded,
      exampleProject
        \<lparr>modulesFile := Some ((updatedModulesFile exampleCollaborators bookArgs exampleRegistry)
                               \<lparr>lastUpdated := 6000\<rparr>),
         files := [modelFilePath ''book'' \<mapsto> modelFileData exampleCollaborators ''11/3/2026'' ''book'',
                   controllerFilePath ''book'' \<mapsto> controllerData exampleCollaborators ''11/3/2026'' ''book'',
                   routesFilePath \<mapsto> routesString exampleCollaborators ''11/3/2026''
                     [(''book'', Some (buildSTRMModule exampleCollaborators bookArgs))],
                   autoImportPath \<mapsto> autoImportData exampleCollaborators ''book'',
                   ''strm_fe_react/src/pages/Book/Index.tsx'' \<mapsto> ''// index page Book'',
                   ''strm_fe_react/src/pages/Book/BookDetail.tsx'' \<mapsto>
                     ''// details page BookDetail of book_controller''],
         dirs := {''strm_fe_react/src/pages/Book'', ''strm_fe_react/src/pages''}\<rparr>)"
proof -
  have nofile:
    "modelFilePath ''book'' \<noteq> ''strm_fe_react/src/pages/Book''"
    "controllerFilePath ''book'' \<noteq> ''strm_fe_react/src/pages/Book''"
    "routesFilePath \<noteq> ''strm_fe_react/src/pages/Book''"
    "autoImportPath \<noteq> ''strm_fe_react/src/pages/Book''"
    by (simp_all add: modelFilePath_def controllerFilePath_def routesFilePath_def autoImportPath_def)
  show ?thesis
    by (simp add: createSTRMModule_def getSTRMModules_def exampleProject_simps exampleClock_simps
        bookArgs_simps writeSTRMModulesFile_ok writeSTRMModelFile_ok writeSTRMControllerFile_ok
        regenerateSTRMModuleRoutes_ok updateSTRMModuleRouteAutoImports_ok book_frontend
        book_registry autoImportPath_distinct nofile nofile [symmetric] out_simps)
qed

lemma afterBook_eq:
  "afterBook =
     exampleProject
        \<lparr>modulesFile := Some ((updatedModulesFile exampleCollaborators bookArgs exampleRegistry)
                               \<lparr>lastUpdated := 6000\<rparr>),
         files := [modelFilePath ''book'' \<mapsto> modelFileData exampleCollaborators ''11/3/2026'' ''book'',
                   controllerFilePath ''book'' \<mapsto> controllerData exampleCollaborators ''11/3/2026'' ''book'',
                   routesFilePath \<mapsto> routesString exampleCollaborators ''11/3/2026''
                     [(''book'', Some (buildSTRMModule exampleCollaborators bookArgs))],
                   autoImportPath \<mapsto> autoImportData exampleCollaborators ''book'',
                   ''strm_fe_react/src/pages/Book/Index.tsx'' \<mapsto> ''// index page Book'',
                   ''strm_fe_react/src/pages/Book/BookDetail.tsx'' \<mapsto>
                     ''// details page BookDetail of book_controller''],
         dirs := {''strm_fe_react/src/pages/Book'', ''strm_fe_react/src/pages''}\<rparr>"
  by (simp add: afterBook_def first_run)

subsection \<open>The route table that is written\<close>



lemma assign_set: "set (assign k v ms) \<subseteq> insert (k, v) (set ms)"
  by (induction ms) (auto split: if_splits)

lemma assign_typed:
  assumes "\<forall>e \<in> set ms. snd e \<noteq> None"
  shows "\<forall>e \<in> set (assign k (Some v) ms). snd e \<noteq> None"
proof
  fix e
  assume "e \<in> set (assign k (Some v) ms)"
  with assign_set [of k "Some v" ms] have "e = (k, Some v) \<or> e \<in> set ms" by blast
  with assms show "snd e \<noteq> None" by auto
qed







lemma tag_descriptor:
  "buildSTRMModule exampleCollaborators tagArgs =
     \<lparr>controller = \<lparr>controllerName = ''tag_controller'', endpointBase = ''tags'',
                     modelName = ''tag.py''\<rparr>,
      controllerOnly = True, pages = []\<rparr>"
  by (simp add: buildSTRMModule_def tagArgs_def pluralizedName_def exampleCollaborators_simps
      asciiLowerCase_examples Let_def)

lemma tag_bindings:
  "moduleBindings exampleCollaborators ''tag'' (buildSTRMModule exampleCollaborators tagArgs) =
     ''        Route('' @ SQ @ ''/tags'' @ SQ @ '', TagController),'' @ NL @
     ''        Route('' @ SQ @ ''/tags/{tag}'' @ SQ @ '', TagController),''"
  by (simp add: tag_descriptor moduleBindings_def routeBinding_def correctedControllerName_tag)



subsection \<open>Persisting the registry\<close>

text \<open>
  C7, as amended. Every successful \<^verbatim>\<open>writeSTRMModulesFile\<close> stores the registry it is given
  with \<open>lastUpdated\<close> set to the clock reading of that write, whatever the value was
  before. Hence across two successive successful writes \<open>lastUpdated\<close> increases
  strictly exactly when the second clock reading is later than the first.
\<close>

theorem persist_stamps_clock_reading:
  assumes "success (fst (writeSTRMModulesFile t1 R1 fs))"
    and "success (fst (writeSTRMModulesFile t2 R2 (snd (writeSTRMModulesFile t1 R1 fs))))"
  shows "modulesFile (snd (writeSTRMModulesFile t1 R1 fs)) = Some (R1\<lparr>lastUpdated := t1\<rparr>) \<and>
         modulesFile (snd (writeSTRMModulesFile t2 R2 (snd (writeSTRMModulesFile t1 R1 fs)))) =
           Some (R2\<lparr>lastUpdated := t2\<rparr>) \<and>
         (lastUpdated (R1\<lparr>lastUpdated := t1\<rparr>) < lastUpdated (R2\<lparr>lastUpdated := t2\<rparr>) \<longleftrightarrow> t1 < t2)"
  using assms by (simp add: writeSTRMModulesFile_success_iff writeSTRMModulesFile_ok)

theorem persist_stamps_clock_reading_witness:
  "success (fst (writeSTRMModulesFile 5000 exampleRegistry exampleProject)) \<and>
   success (fst (writeSTRMModulesFile 6000 exampleRegistry
     (snd (writeSTRMModulesFile 5000 exampleRegistry exampleProject)))) \<and>
   map_option lastUpdated (modulesFile (snd (writeSTRMModulesFile 5000 exampleRegistry exampleProject))) =
     Some 5000 \<and>
   map_option lastUpdated (modulesFile (snd (writeSTRMModulesFile 6000 exampleRegistry
     (snd (writeSTRMModulesFile 5000 exampleRegistry exampleProject))))) = Some 6000 \<and>
   (5000::int) < 6000"
proof -
  have s1: "success (fst (writeSTRMModulesFile 5000 exampleRegistry exampleProject))"
    by (simp add: writeSTRMModulesFile_success_iff exampleProject_simps)
  have s2: "success (fst (writeSTRMModulesFile 6000 exampleRegistry
     (snd (writeSTRMModulesFile 5000 exampleRegistry exampleProject))))"
    by (simp add: writeSTRMModulesFile_def exampleProject_simps out_simps)
  show ?thesis
    using persist_stamps_clock_reading [OF s1 s2] s1 s2 by simp
qed

text \<open>
  C7 as stated fails when the clock does not advance between two writes: the write
  never compares with the stored value. Here the clock reads 5000 at the first write
  and 1000 at the second (the system time was set back), both writes succeed and
  \<open>lastUpdated\<close> goes from 5000 to 1000.
\<close>

theorem clock_set_back_counterexample:
  "success (fst (writeSTRMModulesFile 5000 exampleRegistry exampleProject)) \<and>
   success (fst (writeSTRMModulesFile 1000 exampleRegistry
     (snd (writeSTRMModulesFile 5000 exampleRegistry exampleProject)))) \<and>
   map_option lastUpdated (modulesFile (snd (writeSTRMModulesFile 5000 exampleRegistry exampleProject))) =
     Some 5000 \<and>
   map_option lastUpdated (modulesFile (snd (writeSTRMModulesFile 1000 exampleRegistry
     (snd (writeSTRMModulesFile 5000 exampleRegistry exampleProject))))) = Some 1000 \<and>
   \<not> ((5000::int) < 1000)"
  by (simp add: writeSTRMModulesFile_def exampleProject_simps out_simps)

subsection \<open>Rebuilding the route table twice\<close>

text \<open>
  C1, as amended. A rebuild leaves the registry alone, so a second rebuild that reads the
  same local date returns the same outcome and leaves the very same project, route file
  included. And two projects whose registries have the same modules map (same keys, same
  order, same descriptors), whatever their \<open>appId\<close> and \<open>lastUpdated\<close>, get the same
  route file on the same date: it is \<open>routesString\<close> of the brand, the date and the
  modules map.
\<close>

theorem rebuild_same_date_identical:
  "regenerateSTRMModuleRoutes c date (snd (regenerateSTRMModuleRoutes c date fs)) =
     regenerateSTRMModuleRoutes c date fs \<and>
   (\<forall>R R'. modulesFile fs = Some R \<and> modulesFile fs' = Some R' \<and> modules R = modules R' \<and>
      routesFilePath \<notin> unwritable fs \<and> routesFilePath \<notin> unwritable fs' \<longrightarrow>
      files (snd (regenerateSTRMModuleRoutes c date fs)) routesFilePath =
        Some (routesString c date (modules R)) \<and>
      files (snd (regenerateSTRMModuleRoutes c date fs')) routesFilePath =
        Some (routesString c date (modules R)))"
  by (auto simp: regenerateSTRMModuleRoutes_def getSTRMModules_def writeFile_def
      split: option.splits)

text \<open>
  Two registries with the modules \<^verbatim>\<open>tag\<close> and \<^verbatim>\<open>book\<close> in that order, one with another
  \<open>appId\<close> and \<open>lastUpdated\<close>: on the same date both give the same route file, with the
  four bindings of the two modules, and a second rebuild changes nothing.
\<close>

theorem rebuild_same_date_identical_witness:
  "modules tagRegistry = modules (tagRegistry\<lparr>appId := ''app-2'', lastUpdated := 7000\<rparr>) \<and>
   files (snd (regenerateSTRMModuleRoutes exampleCollaborators ''11/3/2026'' tagProject))
     routesFilePath =
   files (snd (regenerateSTRMModuleRoutes exampleCollaborators ''11/3/2026''
     (tagProject\<lparr>modulesFile := Some (tagRegistry\<lparr>appId := ''app-2'', lastUpdated := 7000\<rparr>)\<rparr>)))
     routesFilePath \<and>
   files (snd (regenerateSTRMModuleRoutes exampleCollaborators ''11/3/2026'' tagProject))
     routesFilePath =
     Some (routesString exampleCollaborators ''11/3/2026'' (modules tagRegistry)) \<and>
   controllerRoutesString exampleCollaborators (modules tagRegistry) =
     ''        Route('' @ SQ @ ''/tag'' @ SQ @ '', TagController),'' @ NL @
     ''        Route('' @ SQ @ ''/tag/{tag}'' @ SQ @ '', TagController),'' @ NL @
     ''        Route('' @ SQ @ ''/book'' @ SQ @ '', BookController),'' @ NL @
     ''        Route('' @ SQ @ ''/book/{book}'' @ SQ @ '', BookController),'' \<and>
   regenerateSTRMModuleRoutes exampleCollaborators ''11/3/2026''
     (snd (regenerateSTRMModuleRoutes exampleCollaborators ''11/3/2026'' tagProject)) =
   regenerateSTRMModuleRoutes exampleCollaborators ''11/3/2026'' tagProject"
proof -
  let ?R' = "tagRegistry\<lparr>appId := ''app-2'', lastUpdated := 7000\<rparr>"
  let ?fs' = "tagProject\<lparr>modulesFile := Some ?R'\<rparr>"
  have h: "modulesFile tagProject = Some tagRegistry \<and> modulesFile ?fs' = Some ?R' \<and>
        modules tagRegistry = modules ?R' \<and>
        routesFilePath \<notin> unwritable tagProject \<and> routesFilePath \<notin> unwritable ?fs'"
    by (simp add: tagProject_def exampleProject_simps)
  have both: "files (snd (regenerateSTRMModuleRoutes exampleCollaborators ''11/3/2026'' tagProject))
          routesFilePath = Some (routesString exampleCollaborators ''11/3/2026'' (modules tagRegistry)) \<and>
        files (snd (regenerateSTRMModuleRoutes exampleCollaborators ''11/3/2026'' ?fs')) routesFilePath =
          Some (routesString exampleCollaborators ''11/3/2026'' (modules tagRegistry))"
    using rebuild_same_date_identical [of exampleCollaborators "''11/3/2026''" tagProject ?fs'] h
    by blast
  have again: "regenerateSTRMModuleRoutes exampleCollaborators ''11/3/2026''
     (snd (regenerateSTRMModuleRoutes exampleCollaborators ''11/3/2026'' tagProject)) =
     regenerateSTRMModuleRoutes exampleCollaborators ''11/3/2026'' tagProject"
    using rebuild_same_date_identical [of exampleCollaborators "''11/3/2026''" tagProject ?fs']
    by blast
  have old_tag: "buildSTRMModule exampleCollaborators oldTagArgs =
     \<lparr>controller = \<lparr>controllerName = ''tag_controller'', endpointBase = ''tag'',
                     modelName = ''tag.py''\<rparr>,
      controllerOnly = True, pages = []\<rparr>"
    by (simp add: buildSTRMModule_def oldTagArgs_def pluralizedName_def exampleCollaborators_simps
        asciiLowerCase_examples Let_def)
  have four: "controllerRoutesString exampleCollaborators (modules tagRegistry) =
     ''        Route('' @ SQ @ ''/tag'' @ SQ @ '', TagController),'' @ NL @
     ''        Route('' @ SQ @ ''/tag/{tag}'' @ SQ @ '', TagController),'' @ NL @
     ''        Route('' @ SQ @ ''/book'' @ SQ @ '', BookController),'' @ NL @
     ''        Route('' @ SQ @ ''/book/{book}'' @ SQ @ '', BookController),''"
    by (simp add: tagRegistry_simps controllerRoutesString_def routesLoop_chunks routeChunk_Some
        book_bindings moduleBindings_def [of _ "''tag''"] routeBinding_def old_tag
        correctedControllerName_tag)
  from h both again four show ?thesis by simp
qed

text \<open>
  C1 as stated fails across midnight: the first line of the route file carries
  \<^verbatim>\<open>new Date().toLocaleDateString()\<close>. Two rebuilds in a row of the registry with the
  modules \<^verbatim>\<open>tag\<close> and \<^verbatim>\<open>book\<close>, registry unchanged, both successful, one on 12/31/2026 and
  one on 1/1/2027, write different files.
\<close>

theorem rebuild_other_day_counterexample:
  "modulesFile (snd (regenerateSTRMModuleRoutes exampleCollaborators ''12/31/2026'' tagProject)) =
     modulesFile tagProject \<and>
   success (fst (regenerateSTRMModuleRoutes exampleCollaborators ''12/31/2026'' tagProject)) \<and>
   success (fst (regenerateSTRMModuleRoutes exampleCollaborators ''1/1/2027''
     (snd (regenerateSTRMModuleRoutes exampleCollaborators ''12/31/2026'' tagProject)))) \<and>
   files (snd (regenerateSTRMModuleRoutes exampleCollaborators ''12/31/2026'' tagProject))
     routesFilePath \<noteq>
   files (snd (regenerateSTRMModuleRoutes exampleCollaborators ''1/1/2027''
     (snd (regenerateSTRMModuleRoutes exampleCollaborators ''12/31/2026'' tagProject))))
     routesFilePath"
proof -
  have h: "modulesFile tagProject = Some tagRegistry" "routesFilePath \<notin> unwritable tagProject"
    by (simp_all add: tagProject_def exampleProject_simps)
  have differ: "routesString exampleCollaborators ''12/31/2026'' ms \<noteq>
                routesString exampleCollaborators ''1/1/2027'' ms" for ms
    by (simp add: routesString_def exampleCollaborators_simps)
  show ?thesis
    using differ
    by (simp add: regenerateSTRMModuleRoutes_ok h out_simps)
qed

subsection \<open>The orchestrator: the registry entry\<close>

lemma assign_keys:
  "k \<in> fst ` set ms \<Longrightarrow> map fst (assign k v ms) = map fst ms"
  by (induction ms) force+

lemma assign_keys_new:
  "k \<notin> fst ` set ms \<Longrightarrow> map fst (assign k v ms) = map fst ms @ [k]"
  by (induction ms) auto

lemma assign_map_of_same: "map_of (assign k v ms) k = Some v"
  by (induction ms) auto

lemma assign_map_of_other: "k' \<noteq> k \<Longrightarrow> map_of (assign k v ms) k' = map_of ms k'"
  by (induction ms) auto

lemma filter_key_absent:
  "k \<notin> fst ` set ms \<Longrightarrow> filter (\<lambda>e. fst e = k) ms = []"
  by (induction ms) auto

lemma assign_single_entry:
  "distinct (map fst ms) \<Longrightarrow> filter (\<lambda>e. fst e = k) (assign k v ms) = [(k, v)]"
  by (induction ms) (auto simp: filter_key_absent)

lemma modulesFile_writePages:
  "modulesFile (snd (writePages c fe base m ps fs)) = modulesFile fs"
  by (induction ps arbitrary: fs) (auto simp: writeFile_def Let_def)

lemma modulesFile_steps:
  "modulesFile (snd (writeSTRMModelFile c d n fs)) = modulesFile fs"
  "modulesFile (snd (writeSTRMControllerFile c d n fs)) = modulesFile fs"
  "modulesFile (snd (regenerateSTRMModuleRoutes c d fs)) = modulesFile fs"
  "modulesFile (snd (updateSTRMModuleRouteAutoImports c n fs)) = modulesFile fs"
  by (simp_all add: writeSTRMModelFile_def writeSTRMControllerFile_def
      regenerateSTRMModuleRoutes_def updateSTRMModuleRouteAutoImports_def writeFile_def
      appendFile_def split: option.splits)

lemma modulesFile_buildSTRMFrontendComponents:
  "modulesFile (snd (buildSTRMFrontendComponents c k pl fs)) = modulesFile fs"
proof -
  have wp: "\<And>fe base m ps fs1 e fs2. writePages c fe base m ps fs1 = (e, fs2) \<Longrightarrow>
              modulesFile fs2 = modulesFile fs1"
    using modulesFile_writePages by (metis snd_conv)
  show ?thesis
    by (auto simp: buildSTRMFrontendComponents_def mkdir_def Let_def
        split: option.splits prod.splits dest!: wp)
qed

lemma createSTRMModule_registry:
  assumes "modulesFile fs = Some R" and "modulesFilePath \<notin> unwritable fs"
  shows "modulesFile (snd (createSTRMModule c clk args fs)) =
           Some ((updatedModulesFile c args R)\<lparr>lastUpdated := persistInstant clk\<rparr>)"
  using assms
  by (simp add: createSTRMModule_def getSTRMModules_def writeSTRMModulesFile_ok split_def
      modulesFile_steps modulesFile_buildSTRMFrontendComponents out_simps)

text \<open>
  The pipeline keeps the registry within its declared type: if every key of the loaded
  registry has a descriptor, so has every key of the registry it persists.
\<close>

lemma createSTRMModule_keeps_descriptors:
  assumes "modulesFile fs = Some R" and "modulesFilePath \<notin> unwritable fs"
    and "\<forall>e \<in> set (modules R). snd e \<noteq> None"
  shows "\<exists>R'. modulesFile (snd (createSTRMModule c clk args fs)) = Some R' \<and>
           (\<forall>e \<in> set (modules R'). snd e \<noteq> None)"
  using createSTRMModule_registry [OF assms(1,2), of c clk args] assign_typed [OF assms(3)]
  by (simp add: updatedModulesFile_def)

text \<open>
  C4. When the module name \<open>K\<close> is already a key of the loaded registry and the registry
  can be written, the registry that \<^verbatim>\<open>createSTRMModule\<close> leaves on disk (whatever the later
  steps do) is the loaded one with the new descriptor stored under \<open>K\<close>: the keys and
  their order are unchanged, \<open>K\<close> has exactly one entry and it holds the descriptor of
  this call, and every other key maps to what it mapped to before.
\<close>

theorem createSTRMModule_overwrites_key:
  assumes "modulesFile fs = Some R"
    and "distinct (map fst (modules R))"
    and "name args \<in> fst ` set (modules R)"
    and "modulesFilePath \<notin> unwritable fs"
  shows "modulesFile (snd (createSTRMModule c clk args fs)) =
           Some (R\<lparr>modules := assign (name args) (Some (buildSTRMModule c args)) (modules R),
                   lastUpdated := persistInstant clk\<rparr>) \<and>
         map fst (assign (name args) (Some (buildSTRMModule c args)) (modules R)) =
           map fst (modules R) \<and>
         filter (\<lambda>e. fst e = name args)
           (assign (name args) (Some (buildSTRMModule c args)) (modules R)) =
           [(name args, Some (buildSTRMModule c args))] \<and>
         map_of (assign (name args) (Some (buildSTRMModule c args)) (modules R)) (name args) =
           Some (Some (buildSTRMModule c args)) \<and>
         (\<forall>k. k \<noteq> name args \<longrightarrow>
            map_of (assign (name args) (Some (buildSTRMModule c args)) (modules R)) k =
            map_of (modules R) k)"
  using assms createSTRMModule_registry [OF assms(1) assms(4), of c clk args]
  by (simp add: updatedModulesFile_def assign_keys assign_single_entry assign_map_of_same
      assign_map_of_other)

text \<open>Creating \<^verbatim>\<open>tag\<close> a second time, now with the plural \<^verbatim>\<open>tags\<close>.\<close>

theorem createSTRMModule_overwrites_key_witness:
  "distinct (map fst (modules tagRegistry)) \<and>
   name tagArgs \<in> fst ` set (modules tagRegistry) \<and>
   endpointBase (controller (buildSTRMModule exampleCollaborators oldTagArgs)) = ''tag'' \<and>
   endpointBase (controller (buildSTRMModule exampleCollaborators tagArgs)) = ''tags'' \<and>
   map_option modules
     (modulesFile (snd (createSTRMModule exampleCollaborators exampleClock tagArgs
                          (exampleProject\<lparr>modulesFile := Some tagRegistry\<rparr>)))) =
     Some [(''tag'', Some (buildSTRMModule exampleCollaborators tagArgs)),
           (''book'', Some (buildSTRMModule exampleCollaborators bookArgs))]"
proof -
  have h1: "modulesFile (exampleProject\<lparr>modulesFile := Some tagRegistry\<rparr>) = Some tagRegistry"
    and h2: "distinct (map fst (modules tagRegistry))"
    and h3: "name tagArgs \<in> fst ` set (modules tagRegistry)"
    and h4: "modulesFilePath \<notin> unwritable (exampleProject\<lparr>modulesFile := Some tagRegistry\<rparr>)"
    by (simp_all add: tagRegistry_simps tagArgs_def exampleProject_simps)
  have eb: "endpointBase (controller (buildSTRMModule exampleCollaborators oldTagArgs)) = ''tag''"
    "endpointBase (controller (buildSTRMModule exampleCollaborators tagArgs)) = ''tags''"
    by (simp_all add: buildSTRMModule_def pluralizedName_def oldTagArgs_def tagArgs_def Let_def)
  have n: "name tagArgs = ''tag''" by (simp add: tagArgs_def)
  show ?thesis
    using createSTRMModule_overwrites_key [OF h1 h2 h3 h4, of exampleCollaborators exampleClock] h2 h3 eb
    by (simp add: tagRegistry_simps n)
qed

subsection \<open>Recorded names and written paths\<close>

lemma files_writeSTRMControllerFile_other:
  "p \<noteq> controllerFilePath n \<Longrightarrow> files (snd (writeSTRMControllerFile c d n fs)) p = files fs p"
  by (simp add: writeSTRMControllerFile_def writeFile_def)









subsection \<open>The orchestrator: failures\<close>

text \<open>
  C5. When the registry cannot be loaded (\<^verbatim>\<open>getSTRMModules\<close> yields \<^verbatim>\<open>undefined\<close>: the file
  is missing, unreadable or not JSON), \<^verbatim>\<open>createSTRMModule\<close> returns the failure
  \<^verbatim>\<open>Failed to read STRMModules file\<close> and the project is exactly as it was: no registry
  is written or synthesised, no model, controller, route, auto-import or page file is
  touched and no directory is made.
\<close>

theorem registry_unavailable_no_effects:
  "modulesFile fs = None \<Longrightarrow>
   createSTRMModule c clk args fs =
     (\<lparr>success = False, message = Some ''Failed to read STRMModules file''\<rparr>, fs)"
  by (simp add: createSTRMModule_def getSTRMModules_def failed_def buildScaffoldOutput_def)

theorem registry_unavailable_no_effects_witness:
  "modulesFile (exampleProject\<lparr>modulesFile := None\<rparr>) = None \<and>
   createSTRMModule exampleCollaborators exampleClock bookArgs (exampleProject\<lparr>modulesFile := None\<rparr>) =
     (\<lparr>success = False, message = Some ''Failed to read STRMModules file''\<rparr>,
      exampleProject\<lparr>modulesFile := None\<rparr>)"
  using registry_unavailable_no_effects
    [of "exampleProject\<lparr>modulesFile := None\<rparr>" exampleCollaborators exampleClock bookArgs]
  by simp

text \<open>
  C6. When the registry loads, the registry, model and controller writes succeed and the
  rewrite of \<^verbatim>\<open>strm_routes/__init__.py\<close> is rejected, \<^verbatim>\<open>createSTRMModule\<close> reports failure with
  the message of the route step. Nothing is rolled back: the project it leaves holds the
  updated, persisted registry and the model and controller files. No later step has
  run: apart from those two files every file (the auto-import file and the frontend
  pages among them) and every directory is as before.
\<close>

theorem route_failure_keeps_earlier_writes:
  assumes "modulesFile fs = Some R"
    and "modulesFilePath \<notin> unwritable fs"
    and "modelFilePath (name args) \<notin> unwritable fs"
    and "controllerFilePath (name args) \<notin> unwritable fs"
    and "routesFilePath \<in> unwritable fs"
  shows "createSTRMModule c clk args fs =
           (\<lparr>success = False, message = Some (errorMessage (EIO routesFilePath))\<rparr>,
            fs\<lparr>modulesFile := Some ((updatedModulesFile c args R)\<lparr>lastUpdated := persistInstant clk\<rparr>),
               files := (files fs)
                 (modelFilePath (name args) \<mapsto> modelFileData c (modelDate clk) (name args),
                  controllerFilePath (name args) \<mapsto>
                    controllerData c (controllerDate clk) (name args))\<rparr>)"
  using assms
  by (simp add: createSTRMModule_def getSTRMModules_def writeSTRMModulesFile_ok
      writeSTRMModelFile_ok writeSTRMControllerFile_ok regenerateSTRMModuleRoutes_fail out_simps)

theorem route_failure_keeps_earlier_writes_witness:
  "routesFilePath \<in> unwritable (exampleProject\<lparr>unwritable := {routesFilePath}\<rparr>) \<and>
   fst (createSTRMModule exampleCollaborators exampleClock bookArgs
          (exampleProject\<lparr>unwritable := {routesFilePath}\<rparr>)) =
     \<lparr>success = False, message = Some (errorMessage (EIO routesFilePath))\<rparr> \<and>
   map_option modules (modulesFile (snd (createSTRMModule exampleCollaborators exampleClock bookArgs
          (exampleProject\<lparr>unwritable := {routesFilePath}\<rparr>)))) =
     Some [(''book'', Some (buildSTRMModule exampleCollaborators bookArgs))] \<and>
   files (snd (createSTRMModule exampleCollaborators exampleClock bookArgs
          (exampleProject\<lparr>unwritable := {routesFilePath}\<rparr>))) (modelFilePath ''book'') =
     Some (modelFileData exampleCollaborators ''11/3/2026'' ''book'') \<and>
   files (snd (createSTRMModule exampleCollaborators exampleClock bookArgs
          (exampleProject\<lparr>unwritable := {routesFilePath}\<rparr>))) (controllerFilePath ''book'') =
     Some (controllerData exampleCollaborators ''11/3/2026'' ''book'') \<and>
   files (snd (createSTRMModule exampleCollaborators exampleClock bookArgs
          (exampleProject\<lparr>unwritable := {routesFilePath}\<rparr>))) routesFilePath = None \<and>
   files (snd (createSTRMModule exampleCollaborators exampleClock bookArgs
          (exampleProject\<lparr>unwritable := {routesFilePath}\<rparr>))) autoImportPath = None \<and>
   dirs (snd (createSTRMModule exampleCollaborators exampleClock bookArgs
          (exampleProject\<lparr>unwritable := {routesFilePath}\<rparr>))) = {''strm_fe_react/src/pages''}"
proof -
  have h1: "modulesFile (exampleProject\<lparr>unwritable := {routesFilePath}\<rparr>) = Some exampleRegistry"
    and h2: "modulesFilePath \<notin> unwritable (exampleProject\<lparr>unwritable := {routesFilePath}\<rparr>)"
      "modelFilePath (name bookArgs) \<notin> unwritable (exampleProject\<lparr>unwritable := {routesFilePath}\<rparr>)"
      "controllerFilePath (name bookArgs) \<notin> unwritable (exampleProject\<lparr>unwritable := {routesFilePath}\<rparr>)"
    and h3: "routesFilePath \<in> unwritable (exampleProject\<lparr>unwritable := {routesFilePath}\<rparr>)"
    by (simp_all add: exampleProject_simps example_paths)
  have mc: "modelFilePath ''book'' \<noteq> controllerFilePath ''book''"
    by (simp add: modelFilePath_def controllerFilePath_def)
  show ?thesis
    using route_failure_keeps_earlier_writes [OF h1 h2 h3, of exampleCollaborators exampleClock]
    by (simp add: exampleProject_simps exampleClock_simps bookArgs_simps book_registry mc
        routesFilePath_distinct autoImportPath_distinct)
qed

lemma existing_pages_directory_state:
  assumes "modulesFile fs = Some R"
    and "configFile fs = Some cfg"
    and "feBasePath c (frontend cfg) (pluralizedName args) \<in> dirs fs"
    and "modulesFilePath \<notin> unwritable fs"
    and "modelFilePath (name args) \<notin> unwritable fs"
    and "controllerFilePath (name args) \<notin> unwritable fs"
    and "routesFilePath \<notin> unwritable fs"
    and "autoImportPath \<notin> unwritable fs"
  shows "createSTRMModule c clk args fs =
           (\<lparr>success = False,
             message = Some (errorMessage (EEXIST (feBasePath c (frontend cfg) (pluralizedName args))))\<rparr>,
            fs\<lparr>modulesFile := Some ((updatedModulesFile c args R)\<lparr>lastUpdated := persistInstant clk\<rparr>),
               files := (files fs)
                 (modelFilePath (name args) \<mapsto> modelFileData c (modelDate clk) (name args),
                  controllerFilePath (name args) \<mapsto>
                    controllerData c (controllerDate clk) (name args),
                  routesFilePath \<mapsto>
                    routesString c (routesDate clk) (modules (updatedModulesFile c args R)),
                  autoImportPath \<mapsto>
                    (case files fs autoImportPath of
                       None \<Rightarrow> autoImportData c (name args)
                     | Some old \<Rightarrow> old @ autoImportData c (name args)))\<rparr>)"
  using assms
  by (simp add: autoImportPath_distinct createSTRMModule_def getSTRMModules_def writeSTRMModulesFile_ok
      writeSTRMModelFile_ok writeSTRMControllerFile_ok regenerateSTRMModuleRoutes_ok
      updateSTRMModuleRouteAutoImports_ok buildSTRMFrontendComponents_exists out_simps)

text \<open>
  C10. When the pages directory of the module
  (\<^verbatim>\<open>strm_fe_<frontend>/src/pages/<TitleCase plural>\<close>) exists already and every earlier step
  succeeds, \<^verbatim>\<open>createSTRMModule\<close> fails at the frontend step with the \<^verbatim>\<open>EEXIST\<close> message of the
  non-recursive \<^verbatim>\<open>mkdir\<close>, and the effects of the earlier steps stay: the registry entry
  is overwritten and persisted, the model and controller files are written, the route
  file is rewritten, and \<^verbatim>\<open>strm_controllers/__init__.py\<close> is what it was with the one line
  \<^verbatim>\<open>from .N_controller import <TitleCase N>Controller\<close> appended. No page file is written and
  no directory is made. This holds whether or not the module is controller-only.
\<close>

theorem existing_pages_directory_fails_late:
  assumes "modulesFile fs = Some R"
    and "configFile fs = Some cfg"
    and "feBasePath c (frontend cfg) (pluralizedName args) \<in> dirs fs"
    and "modulesFilePath \<notin> unwritable fs"
    and "modelFilePath (name args) \<notin> unwritable fs"
    and "controllerFilePath (name args) \<notin> unwritable fs"
    and "routesFilePath \<notin> unwritable fs"
    and "''strm_controllers/__init__.py'' \<notin> unwritable fs"
  shows "createSTRMModule c clk args fs =
           (\<lparr>success = False,
             message = Some (errorMessage (EEXIST (feBasePath c (frontend cfg) (pluralizedName args))))\<rparr>,
            fs\<lparr>modulesFile := Some ((updatedModulesFile c args R)\<lparr>lastUpdated := persistInstant clk\<rparr>),
               files := (files fs)
                 (modelFilePath (name args) \<mapsto> modelFileData c (modelDate clk) (name args),
                  controllerFilePath (name args) \<mapsto>
                    controllerData c (controllerDate clk) (name args),
                  routesFilePath \<mapsto>
                    routesString c (routesDate clk) (modules (updatedModulesFile c args R)),
                  ''strm_controllers/__init__.py'' \<mapsto>
                    (case files fs ''strm_controllers/__init__.py'' of
                       None \<Rightarrow>
                         ''from .'' @ name args @ ''_controller import '' @ titleCase c (name args) @
                         ''Controller'' @ NL
                     | Some old \<Rightarrow>
                         old @ ''from .'' @ name args @ ''_controller import '' @
                         titleCase c (name args) @ ''Controller'' @ NL))\<rparr>)"
proof -
  have p: "autoImportPath = ''strm_controllers/__init__.py''"
    by (simp add: autoImportPath_def)
  have line: "autoImportData c (name args) =
              ''from .'' @ name args @ ''_controller import '' @ titleCase c (name args) @
              ''Controller'' @ NL"
    by (simp add: autoImportData_def)
  from assms(8) have w: "autoImportPath \<notin> unwritable fs" by (simp add: p)
  show ?thesis
    using existing_pages_directory_state [OF assms(1-7) w, of clk]
    by (simp only: p line)
qed

text \<open>
  Creating \<^verbatim>\<open>book\<close> (with pages) twice in the example project: the first run succeeds and
  makes the directory, the second fails on it and leaves a second import line.
\<close>

theorem existing_pages_directory_fails_late_witness:
  "success (fst (createSTRMModule exampleCollaborators exampleClock bookArgs exampleProject)) \<and>
   files afterBook ''strm_controllers/__init__.py'' =
     Some (''from .book_controller import BookController'' @ NL) \<and>
   feBasePath exampleCollaborators react (pluralizedName bookArgs) \<in> dirs afterBook \<and>
   \<not> controllerOnly (buildSTRMModule exampleCollaborators bookArgs) \<and>
   fst (createSTRMModule exampleCollaborators exampleClock bookArgs afterBook) =
     \<lparr>success = False,
      message = Some (errorMessage (EEXIST ''strm_fe_react/src/pages/Book''))\<rparr> \<and>
   files (snd (createSTRMModule exampleCollaborators exampleClock bookArgs afterBook))
     ''strm_controllers/__init__.py'' =
     Some (''from .book_controller import BookController'' @ NL @
           ''from .book_controller import BookController'' @ NL) \<and>
   dirs (snd (createSTRMModule exampleCollaborators exampleClock bookArgs afterBook)) = dirs afterBook"
proof -
  have base: "feBasePath exampleCollaborators react (pluralizedName bookArgs) =
              ''strm_fe_react/src/pages/Book''"
    by (simp add: feBasePath_def bookArgs_simps exampleCollaborators_simps exampleTitleCase_book)
  have h1: "modulesFile afterBook =
              Some ((updatedModulesFile exampleCollaborators bookArgs exampleRegistry)\<lparr>lastUpdated := 6000\<rparr>)"
    and h2: "configFile afterBook = Some \<lparr>frontend = react\<rparr>"
    and h3: "feBasePath exampleCollaborators (frontend \<lparr>frontend = react\<rparr>) (pluralizedName bookArgs)
               \<in> dirs afterBook"
    and h4: "modulesFilePath \<notin> unwritable afterBook"
      "modelFilePath (name bookArgs) \<notin> unwritable afterBook"
      "controllerFilePath (name bookArgs) \<notin> unwritable afterBook"
      "routesFilePath \<notin> unwritable afterBook"
      "''strm_controllers/__init__.py'' \<notin> unwritable afterBook"
    by (simp_all add: afterBook_eq exampleProject_simps base)
  have old: "files afterBook ''strm_controllers/__init__.py'' =
             Some (''from .book_controller import BookController'' @ NL)"
    using autoImportPath_not_page
    by (simp add: afterBook_eq autoImportPath_def autoImportData_def exampleCollaborators_simps
        exampleTitleCase_book)
  have ok: "success (fst (createSTRMModule exampleCollaborators exampleClock bookArgs exampleProject))"
    by (simp add: first_run out_simps)
  have pages: "\<not> controllerOnly (buildSTRMModule exampleCollaborators bookArgs)"
    by (simp add: book_descriptor)
  have title: "titleCase exampleCollaborators ''book'' = ''Book''"
    by (simp add: exampleCollaborators_simps exampleTitleCase_book)
  show ?thesis
    using existing_pages_directory_fails_late [OF h1 h2 h3 h4, of exampleClock] h3 old ok pages
    by (simp add: base base [unfolded bookArgs_simps] bookArgs_simps title)
qed

end
